theory Spec2Isabelle
  imports Main
begin

section \<open>Option registry\<close>

text \<open>
  \<^verbatim>\<open>main.py\<close> starts with \<^verbatim>\<open>from static.options import *\<close> and uses five names of that
  module: \<^verbatim>\<open>voice_ids\<close>, \<^verbatim>\<open>output_formats\<close>, \<^verbatim>\<open>sample_rates\<close>, \<^verbatim>\<open>eng_language_code_dict\<close> and
  \<^verbatim>\<open>sample_sentences\<close>. The module itself is not among the sources. The first four tables are
  written out in the docstrings of the setters and in the specification (section 6); the
  sentence pool is listed nowhere and is a parameter of the model (see \<open>env\<close> below).
\<close>

text \<open>Modelled from the spec: \<^verbatim>\<open>static.options.voice_ids\<close> is missing from the sources; the
  values are the ones the docstring of \<^verbatim>\<open>choose_voice_id\<close> lists as valid voices.\<close>

definition voice_ids :: "string list" where
  "voice_ids =
    [''Aditi'', ''Amy'', ''Astrid'', ''Bianca'', ''Brian'', ''Camila'', ''Carla'', ''Carmen'',
     ''Celine'', ''Chantal'', ''Conchita'', ''Cristiano'', ''Dora'', ''Emma'', ''Enrique'',
     ''Ewa'', ''Filiz'', ''Gabrielle'', ''Geraint'', ''Giorgio'', ''Gwyneth'', ''Hans'',
     ''Ines'', ''Ivy'', ''Jacek'', ''Jan'', ''Joanna'', ''Joey'', ''Justin'', ''Karl'',
     ''Kendra'', ''Kevin'', ''Kimberly'', ''Lea'', ''Liv'', ''Lotte'', ''Lucia'', ''Lupe'',
     ''Mads'', ''Maja'', ''Marlene'', ''Mathieu'', ''Matthew'', ''Maxim'', ''Mia'', ''Miguel'',
     ''Mizuki'', ''Naja'', ''Nicole'', ''Olivia'', ''Penelope'', ''Raveena'', ''Ricardo'',
     ''Ruben'', ''Russell'', ''Salli'', ''Seoyeon'', ''Takumi'', ''Tatyana'', ''Vicki'',
     ''Vitoria'', ''Zeina'', ''Zhiyu'']"

text \<open>Modelled from the spec: \<^verbatim>\<open>static.options.output_formats\<close> is missing from the sources;
  the values are those of the docstring of \<^verbatim>\<open>choose_output_format\<close> and of the enumeration
  \<open>{json, mp3, ogg_vorbis, pcm}\<close> of the specification.\<close>

definition output_formats :: "string list" where
  "output_formats = [''json'', ''mp3'', ''ogg_vorbis'', ''pcm'']"

text \<open>Modelled from the spec: \<^verbatim>\<open>static.options.sample_rates\<close> is missing from the sources; the
  values are those of the docstring of \<^verbatim>\<open>choose_sample_rate\<close> and of the specification.\<close>

definition sample_rates :: "string list" where
  "sample_rates = [''8000'', ''16000'', ''22050'', ''24000'']"

text \<open>Modelled from the spec: \<^verbatim>\<open>static.options.eng_language_code_dict\<close> is missing from the
  sources; keys and display names are those of the docstring of \<^verbatim>\<open>choose_eng_accent\<close>. The
  dictionary is an association list in the docstring's order; \<open>map_of\<close> is the lookup.\<close>

definition eng_language_code_dict :: "(string \<times> string) list" where
  "eng_language_code_dict =
    [(''en-AU'', ''Australian''), (''en-IN'', ''Indian''), (''en-IE'', ''Irish''),
     (''en-NZ'', ''New Zealander Kiwi''), (''en-ZA'', ''South African''),
     (''en-GB'', ''English''), (''en-US'', ''American''), (''en-GB-WLS'', ''Welsh'')]"


section \<open>Exceptions and outcomes\<close>

text \<open>
  The exception classes the program names or can meet. \<^verbatim>\<open>IOError\<close> is Python 3's alias of
  \<^verbatim>\<open>OSError\<close>, whose subclasses include \<^verbatim>\<open>FileNotFoundError\<close> and \<^verbatim>\<open>PermissionError\<close>.
  \<^verbatim>\<open>SystemExit\<close> (raised by \<^verbatim>\<open>sys.exit\<close>) derives from \<^verbatim>\<open>BaseException\<close>, not from
  \<^verbatim>\<open>Exception\<close>. \<open>PdfReadError\<close> stands for the parse errors of the PDF library.
\<close>

datatype exit_arg = ExitCode int | ExitMsg string

datatype exn =
    FileNotFoundError string
  | PermissionError string
  | OSError string
  | PdfReadError string
  | TypeError string
  | KeyError string
  | IndexError string
  | AttributeError string
  | BotoCoreError string
  | ClientError string
  | SystemExit exit_arg

text \<open>\<^verbatim>\<open>str(e)\<close>, as the f-strings of the diagnostics format an exception: the message it
  was raised with. No \<^verbatim>\<open>except\<close> clause of the program catches \<^verbatim>\<open>SystemExit\<close>, so an exit
  is never formatted and has no equation here.\<close>

fun str_exn :: "exn \<Rightarrow> string" where
  "str_exn (FileNotFoundError m) = m"
| "str_exn (PermissionError m) = m"
| "str_exn (OSError m) = m"
| "str_exn (PdfReadError m) = m"
| "str_exn (TypeError m) = m"
| "str_exn (KeyError m) = m"
| "str_exn (IndexError m) = m"
| "str_exn (AttributeError m) = m"
| "str_exn (BotoCoreError m) = m"
| "str_exn (ClientError m) = m"

text \<open>The \<^verbatim>\<open>isinstance\<close> tests that the \<^verbatim>\<open>except\<close> clauses of the program perform.\<close>

fun is_FileNotFoundError :: "exn \<Rightarrow> bool" where
  "is_FileNotFoundError (FileNotFoundError m) = True"
| "is_FileNotFoundError e = False"

fun is_IOError :: "exn \<Rightarrow> bool" where
  "is_IOError (FileNotFoundError m) = True"
| "is_IOError (PermissionError m) = True"
| "is_IOError (OSError m) = True"
| "is_IOError e = False"

fun is_TypeError :: "exn \<Rightarrow> bool" where
  "is_TypeError (TypeError m) = True"
| "is_TypeError e = False"

fun is_Exception :: "exn \<Rightarrow> bool" where
  "is_Exception (SystemExit a) = False"
| "is_Exception e = True"

fun is_Boto_or_ClientError :: "exn \<Rightarrow> bool" where
  "is_Boto_or_ClientError (BotoCoreError m) = True"
| "is_Boto_or_ClientError (ClientError m) = True"
| "is_Boto_or_ClientError e = False"

text \<open>A method either returns or raises; in both cases the mutations made so far stay.\<close>

datatype outcome = Returned | Raised exn


section \<open>The object, its collaborators and the world it writes to\<close>

type_synonym bytes = string

datatype client = PollyClient string string string

text \<open>The keyword arguments of \<^verbatim>\<open>client.synthesize_speech\<close>.\<close>

record request =
  VoiceId :: string
  OutputFormat :: string
  Text :: string
  LanguageCode :: string
  SampleRate :: string

text \<open>The response is a dictionary; under the key \<^verbatim>\<open>"AudioStream"\<close> it holds a stream, modelled
  by the bytes that \<^verbatim>\<open>read()\<close> returns.\<close>

type_synonym response = "string \<rightharpoonup> bytes"

text \<open>A page of a PDF is what its \<^verbatim>\<open>extract_text()\<close> does: return a string or raise.\<close>

type_synonym page = "exn + string"

text \<open>
  The collaborators, which the program reaches through library calls: the PDF library, the
  speech service, the random sources, the temporary directory, the file system's answer to
  \<^verbatim>\<open>open(path, "wb")\<close>, and the sentence pool of the missing options module.
\<close>

record env =
  boto3_client :: "string \<Rightarrow> string \<Rightarrow> string \<Rightarrow> string \<Rightarrow> exn + client"
  PdfReader :: "string \<Rightarrow> exn + page list"
  synthesize_speech :: "client \<Rightarrow> request \<Rightarrow> exn + response"
  token_urlsafe :: "nat \<Rightarrow> string"
  randbelow :: "nat \<Rightarrow> nat"
  gettempdir :: string
  open_wb :: "string \<Rightarrow> exn option"
  sample_sentences :: "string list"

text \<open>
  The instance attributes of \<^verbatim>\<open>PollyTTS\<close>, in the order \<^verbatim>\<open>__init__\<close> sets them, followed by
  the two parts of the outside world the program changes: the lines printed so far and the
  files written.
\<close>

record PollyTTS =
  pdf_input_path :: string
  str_input :: string
  aws_client_str :: string
  user_file_prefix :: string
  output_filename :: string
  voice_id :: string
  output_format :: string
  sample_rate :: string
  language_code :: string
  use_temp_dir :: bool
  client :: "client option"
  response :: "response option"
  access_key :: string
  secret_access_key :: string
  stdout :: "string list"
  files :: "string \<rightharpoonup> bytes"

definition print :: "string \<Rightarrow> PollyTTS \<Rightarrow> PollyTTS" where
  "print msg s = s\<lparr>stdout := stdout s @ [msg]\<rparr>"

text \<open>Sequencing of two steps: the second runs only if the first returned.\<close>

definition and_then ::
  "outcome \<times> PollyTTS \<Rightarrow> (PollyTTS \<Rightarrow> outcome \<times> PollyTTS) \<Rightarrow> outcome \<times> PollyTTS" where
  "and_then r f = (case r of (Returned, s) \<Rightarrow> f s | (Raised e, s) \<Rightarrow> (Raised e, s))"

text \<open>\<^verbatim>\<open>random.choice(seq)\<close>: \<^verbatim>\<open>seq[randbelow(len(seq))]\<close>, an \<^verbatim>\<open>IndexError\<close> on an empty
  sequence.\<close>

definition random_choice :: "env \<Rightarrow> 'a list \<Rightarrow> exn + 'a" where
  "random_choice E xs =
     (if xs = [] then Inl (IndexError ''Cannot choose from an empty sequence'')
      else Inr (xs ! (randbelow E (length xs) mod length xs)))"


section \<open>Configuration setters\<close>

subsection \<open>\<^verbatim>\<open>choose_voice_id\<close>\<close>

text \<open>The body of the \<^verbatim>\<open>try\<close>. A membership test of a string in a list of strings cannot
  raise, so the body always returns.\<close>

definition choose_voice_id_try :: "string \<Rightarrow> PollyTTS \<Rightarrow> outcome \<times> PollyTTS" where
  "choose_voice_id_try v s =
     (if v \<in> set voice_ids then (Returned, s\<lparr>voice_id := v\<rparr>)
      else (Returned,
            print ''Using default voice 'Joanna' instead.''
              (print (''`select_voice_id` error: '' @ v @ '' not available.'') s)))"

definition choose_voice_id :: "string \<Rightarrow> PollyTTS \<Rightarrow> outcome \<times> PollyTTS" where
  "choose_voice_id v s =
     (let (r, s1) =
        (case choose_voice_id_try v s of
           (Returned, s') \<Rightarrow> (Returned, s')
         | (Raised e, s') \<Rightarrow>
             if is_TypeError e then
               (Raised (TypeError (''Missing `voice_id`: '' @ str_exn e
                                   @ ''. Defaulting to 'Joanna'.'')), s')
             else if is_Exception e then
               (Returned, print (''`choose_voice_id` error: '' @ str_exn e @ ''.'') s')
             else (Raised e, s'))
      in (r, print (''Setting `voice_id` to: '' @ voice_id s1 @ ''.'') s1))"

subsection \<open>\<^verbatim>\<open>choose_output_format\<close>\<close>

definition choose_output_format_try :: "string \<Rightarrow> PollyTTS \<Rightarrow> outcome \<times> PollyTTS" where
  "choose_output_format_try fmt s =
     (if output_format s \<notin> set output_formats then
        (Returned,
         (print ''Going with 'mp3' instead.''
            (print (''You entered an invalid output format: '' @ output_format s @ ''.'') s))
         \<lparr>output_format := ''mp3''\<rparr>)
      else (Returned, s\<lparr>output_format := fmt\<rparr>))"

text \<open>The \<^verbatim>\<open>else\<close> clause of the \<^verbatim>\<open>try\<close> statement runs when the body returned, before the
  \<^verbatim>\<open>finally\<close> clause.\<close>

definition choose_output_format :: "string \<Rightarrow> PollyTTS \<Rightarrow> outcome \<times> PollyTTS" where
  "choose_output_format fmt s =
     (let (r, s1) =
        (case choose_output_format_try fmt s of
           (Returned, s') \<Rightarrow> (Returned, s'\<lparr>output_format := ''16000''\<rparr>)
         | (Raised e, s') \<Rightarrow>
             if is_TypeError e then
               (Raised (TypeError (''Invalid `output_format`: '' @ str_exn e
                                   @ ''. Defaulting to 'mp3'.'')), s')
             else if is_Exception e then
               (Returned, print (''`choose_output_format` error: '' @ str_exn e @ ''.'') s')
             else (Raised e, s'))
      in (r, print (''Setting `output_format` to: '' @ output_format s1 @ ''.'') s1))"

subsection \<open>\<^verbatim>\<open>choose_sample_rate\<close>\<close>

definition choose_sample_rate_try :: "string \<Rightarrow> PollyTTS \<Rightarrow> outcome \<times> PollyTTS" where
  "choose_sample_rate_try rate s =
     (if sample_rate s \<notin> set sample_rates then
        (Returned,
         (print ''Going with '16000' instead.''
            (print (''You entered an invalid output sample rate: '' @ sample_rate s @ ''.'') s))
         \<lparr>sample_rate := ''16000''\<rparr>)
      else (Returned, s\<lparr>sample_rate := rate\<rparr>))"

definition choose_sample_rate :: "string \<Rightarrow> PollyTTS \<Rightarrow> outcome \<times> PollyTTS" where
  "choose_sample_rate rate s =
     (let (r, s1) =
        (case choose_sample_rate_try rate s of
           (Returned, s') \<Rightarrow> (Returned, s'\<lparr>sample_rate := ''16000''\<rparr>)
         | (Raised e, s') \<Rightarrow>
             if is_TypeError e then
               (Raised (TypeError (''Invalid `sample_rate`: '' @ str_exn e
                                   @ ''. Defaulting to '16000'.'')), s')
             else if is_Exception e then
               (Returned, print (''`choose_sample_rate` error: '' @ str_exn e @ ''.'') s')
             else (Raised e, s'))
      in (r, print (''Setting `sample_rate` to: '' @ sample_rate s1 @ ''.'') s1))"

subsection \<open>\<^verbatim>\<open>choose_eng_accent\<close>\<close>

definition choose_eng_accent_try :: "string \<Rightarrow> PollyTTS \<Rightarrow> outcome \<times> PollyTTS" where
  "choose_eng_accent_try code s =
     (if code \<in> fst ` set eng_language_code_dict then (Returned, s\<lparr>language_code := code\<rparr>)
      else (Returned,
            print ''Using default accent instead.''
              (print (''`choose_eng_accent` error: '' @ code @ '' not available.'') s)))"

text \<open>
  The \<^verbatim>\<open>finally\<close> clause looks \<^verbatim>\<open>self.language_code\<close> up in the dictionary; a missing key
  raises \<^verbatim>\<open>KeyError\<close> there, which replaces whatever the statement was about to do.
\<close>

definition choose_eng_accent :: "string \<Rightarrow> PollyTTS \<Rightarrow> outcome \<times> PollyTTS" where
  "choose_eng_accent code s =
     (let (r, s1) =
        (case choose_eng_accent_try code s of
           (Returned, s') \<Rightarrow> (Returned, s')
         | (Raised e, s') \<Rightarrow>
             if is_Exception e then
               (Raised (TypeError (''`choose_eng_accent` error: '' @ str_exn e
                                   @ ''. Defaulting to 'en-US'.'')),
                s'\<lparr>language_code := ''en-US''\<rparr>)
             else (Raised e, s'))
      in (case map_of eng_language_code_dict (language_code s1) of
            None \<Rightarrow> (Raised (KeyError (language_code s1)), s1)
          | Some accent_name \<Rightarrow> (r, print (''Speech will be in '' @ accent_name @ ''.'') s1)))"


section \<open>Random selections\<close>

text \<open>\<^verbatim>\<open>_random_text_input\<close>\<close>

definition random_text_input :: "env \<Rightarrow> PollyTTS \<Rightarrow> outcome \<times> PollyTTS" where
  "random_text_input E s =
     (case random_choice E (sample_sentences E) of
        Inl e \<Rightarrow> (Raised e, s)
      | Inr random_sample_text \<Rightarrow>
          (Returned,
           (print (''Random text generated: '' @ random_sample_text) s)
           \<lparr>aws_client_str := random_sample_text\<rparr>))"

definition random_voice_id :: "env \<Rightarrow> PollyTTS \<Rightarrow> outcome \<times> PollyTTS" where
  "random_voice_id E s =
     (case random_choice E voice_ids of
        Inl e \<Rightarrow> (Raised e, s)
      | Inr random_voice \<Rightarrow>
          (Returned,
           print (''Using voice '' @ random_voice)
             ((print ''Retrieved random voice.'' s)\<lparr>voice_id := random_voice\<rparr>)))"

definition random_eng_accent :: "env \<Rightarrow> PollyTTS \<Rightarrow> outcome \<times> PollyTTS" where
  "random_eng_accent E s =
     (case random_choice E (map fst eng_language_code_dict) of
        Inl e \<Rightarrow> (Raised e, s)
      | Inr random_language_code \<Rightarrow>
          (case map_of eng_language_code_dict random_language_code of
             None \<Rightarrow> (Raised (KeyError random_language_code), s)
           | Some accent_name \<Rightarrow>
               (Returned,
                (print (''Using random accent: '' @ accent_name @ ''.'') s)
                \<lparr>language_code := random_language_code\<rparr>)))"


section \<open>Construction: client, output filename, input text\<close>

text \<open>\<^verbatim>\<open>_initialize_client\<close>\<close>

definition initialize_client :: "env \<Rightarrow> PollyTTS \<Rightarrow> outcome \<times> PollyTTS" where
  "initialize_client E s =
     (case boto3_client E ''polly'' (access_key s) (secret_access_key s) ''us-east-1'' of
        Inr c \<Rightarrow> (Returned, print ''AWS-Polly client successfully initiated.'' (s\<lparr>client := Some c\<rparr>))
      | Inl e \<Rightarrow>
          if is_Boto_or_ClientError e then
            (Raised (SystemExit (ExitMsg (''Failed to initialize AWS Polly client: '' @ str_exn e))), s)
          else (Raised e, s))"

text \<open>\<^verbatim>\<open>_determine_output_filename\<close>. An empty prefix is falsy.\<close>

definition determine_output_filename :: "env \<Rightarrow> PollyTTS \<Rightarrow> outcome \<times> PollyTTS" where
  "determine_output_filename E s =
     (let s1 =
        (if user_file_prefix s = [] then
           (let random_filename = token_urlsafe E 6
            in (print (''Generated random file name: '' @ random_filename) s)
               \<lparr>user_file_prefix := ''pdf_tts_'' @ random_filename\<rparr>)
         else s)
      in (Returned, s1\<lparr>output_filename := user_file_prefix s1 @ ''.'' @ output_format s1\<rparr>))"

text \<open>The loop over \<^verbatim>\<open>reader.pages\<close>, with \<^verbatim>\<open>text_from_pdf\<close> as the accumulator; it stops at
  the first page whose \<^verbatim>\<open>extract_text()\<close> raises.\<close>

fun extract_pages :: "page list \<Rightarrow> string \<Rightarrow> exn + string" where
  "extract_pages [] text_from_pdf = Inr text_from_pdf"
| "extract_pages (page # pages) text_from_pdf =
     (case page of
        Inl e \<Rightarrow> Inl e
      | Inr t \<Rightarrow> extract_pages pages (text_from_pdf @ t @ [CHR 0x0A]))"

text \<open>The body of the \<^verbatim>\<open>try\<close> in \<^verbatim>\<open>_process_input_text\<close>: first the reader and the loop
  (\<open>read_pdf\<close>), either of which may raise; the attribute is assigned only after the loop
  has finished.\<close>

definition read_pdf :: "env \<Rightarrow> string \<Rightarrow> exn + string" where
  "read_pdf E path =
     (case PdfReader E path of
        Inl e \<Rightarrow> Inl e
      | Inr pages \<Rightarrow> extract_pages pages [])"

definition process_input_text_try :: "env \<Rightarrow> PollyTTS \<Rightarrow> outcome \<times> PollyTTS" where
  "process_input_text_try E s =
     (case read_pdf E (pdf_input_path s) of
        Inl e \<Rightarrow> (Raised e, s)
      | Inr text_from_pdf \<Rightarrow>
          (Returned,
           print ''PDF input file processed successfully.''
             (s\<lparr>aws_client_str := text_from_pdf\<rparr>)))"

text \<open>\<^verbatim>\<open>_process_input_text\<close>. The only \<^verbatim>\<open>except\<close> clause is for \<^verbatim>\<open>FileNotFoundError\<close>.\<close>

definition process_input_text :: "env \<Rightarrow> PollyTTS \<Rightarrow> outcome \<times> PollyTTS" where
  "process_input_text E s =
     (if pdf_input_path s \<noteq> [] then
        (case process_input_text_try E s of
           (Returned, s') \<Rightarrow> (Returned, s')
         | (Raised e, s') \<Rightarrow>
             if is_FileNotFoundError e then
               (let s2 = print (''Path not valid. Going to string input. Error: '' @ str_exn e) s'
                in if str_input s2 \<noteq> [] then
                     (Returned,
                      print ''String input processed successfully.''
                        (s2\<lparr>aws_client_str := str_input s2\<rparr>))
                   else
                     random_text_input E
                       (print ''Using random text to tide you over...''
                          (print ''No valid input string input.'' s2)))
             else (Raised e, s'))
      else if str_input s \<noteq> [] then
        (Returned, (print ''Using string input.'' s)\<lparr>aws_client_str := str_input s\<rparr>)
      else random_text_input E s)"

text \<open>\<^verbatim>\<open>__init__\<close>: the attributes, then the three initial methods in order. The object starts
  in a world with nothing printed and the files \<open>fs\<close>.\<close>

definition new_PollyTTS ::
  "string \<Rightarrow> string \<Rightarrow> string \<Rightarrow> string \<Rightarrow> bool \<Rightarrow> string \<Rightarrow> (string \<rightharpoonup> bytes) \<Rightarrow> PollyTTS" where
  "new_PollyTTS akey skey pdf str tmp prefix fs =
     \<lparr>pdf_input_path = pdf, str_input = str, aws_client_str = [],
      user_file_prefix = prefix, output_filename = [],
      voice_id = ''Joanna'', output_format = ''mp3'', sample_rate = ''16000'',
      language_code = ''en-US'', use_temp_dir = tmp, client = None, response = None,
      access_key = akey, secret_access_key = skey, stdout = [], files = fs\<rparr>"

definition init ::
  "env \<Rightarrow> string \<Rightarrow> string \<Rightarrow> string \<Rightarrow> string \<Rightarrow> bool \<Rightarrow> string \<Rightarrow> (string \<rightharpoonup> bytes)
     \<Rightarrow> outcome \<times> PollyTTS" where
  "init E akey skey pdf str tmp prefix fs =
     and_then
       (and_then (initialize_client E (new_PollyTTS akey skey pdf str tmp prefix fs))
          (determine_output_filename E))
       (process_input_text E)"


section \<open>Synthesis and output\<close>

text \<open>The request that \<^verbatim>\<open>_get_synthesized_speech\<close> hands to the service.\<close>

definition synthesis_request :: "PollyTTS \<Rightarrow> request" where
  "synthesis_request s =
     \<lparr>VoiceId = voice_id s, OutputFormat = output_format s, Text = aws_client_str s,
      LanguageCode = language_code s, SampleRate = sample_rate s\<rparr>"

text \<open>\<^verbatim>\<open>_get_synthesized_speech\<close>. Calling a method of \<^verbatim>\<open>None\<close> is an \<^verbatim>\<open>AttributeError\<close>, which
  the \<^verbatim>\<open>except\<close> clause does not name.\<close>

definition get_synthesized_speech :: "env \<Rightarrow> PollyTTS \<Rightarrow> outcome \<times> PollyTTS" where
  "get_synthesized_speech E s =
     (case client s of
        None \<Rightarrow> (Raised (AttributeError ''synthesize_speech''), s)
      | Some c \<Rightarrow>
          (case synthesize_speech E c (synthesis_request s) of
             Inr r \<Rightarrow> (Returned, print ''Speech successfully synthesized.'' (s\<lparr>response := Some r\<rparr>))
           | Inl e \<Rightarrow>
               if is_Boto_or_ClientError e then
                 (Raised (SystemExit (ExitCode (- 1))),
                  print (''`_get_synthesized_speech` error: '' @ str_exn e) s)
               else (Raised e, s)))"

text \<open>\<^verbatim>\<open>os.path.join\<close> of two components, as \<^verbatim>\<open>posixpath\<close> computes it.\<close>

definition os_path_join :: "string \<Rightarrow> string \<Rightarrow> string" where
  "os_path_join a b =
     (if b \<noteq> [] \<and> hd b = CHR ''/'' then b
      else if a = [] \<or> last a = CHR ''/'' then a @ b
      else a @ ''/'' @ b)"

text \<open>\<^verbatim>\<open>_write_audio_file\<close>. \<open>open_wb\<close> answers whether opening the path and writing to it
  raises; a test \<^verbatim>\<open>in\<close> on \<^verbatim>\<open>None\<close> is a \<^verbatim>\<open>TypeError\<close>.\<close>

definition write_audio_file :: "env \<Rightarrow> PollyTTS \<Rightarrow> outcome \<times> PollyTTS" where
  "write_audio_file E s =
     (case response s of
        None \<Rightarrow> (Raised (TypeError ''argument of type 'NoneType' is not iterable''), s)
      | Some r \<Rightarrow>
          (case r ''AudioStream'' of
             Some audio_stream \<Rightarrow>
               (let output_path =
                      (if use_temp_dir s then os_path_join (gettempdir E) (output_filename s)
                       else output_filename s)
                in case open_wb E output_path of
                     None \<Rightarrow>
                       (Returned,
                        print (''Audio file successfully written to '' @ output_path @ '' '')
                          (s\<lparr>files := (files s)(output_path \<mapsto> audio_stream)\<rparr>))
                   | Some e \<Rightarrow>
                       if is_IOError e then
                         (Raised (SystemExit (ExitCode (- 1))),
                          print (''`_write_audio_file` error: '' @ str_exn e) s)
                       else (Raised e, s))
           | None \<Rightarrow>
               (Raised (SystemExit (ExitCode (- 1))),
                print ''`_write_audio_file` error: 'AudioStream' not in response.'' s)))"

definition complete_tts :: "env \<Rightarrow> PollyTTS \<Rightarrow> outcome \<times> PollyTTS" where
  "complete_tts E s = and_then (get_synthesized_speech E s) (write_audio_file E)"


section \<open>Concrete collaborators and derived notions\<close>

text \<open>
  A concrete set of collaborators for evaluating the program: one readable two-page PDF,
  one file that exists but does not parse, every other path missing; a service that answers
  with an audio stream; fixed random draws.
\<close>

definition example_env :: env where
  "example_env =
     \<lparr>boto3_client = (\<lambda>service akey skey region. Inr (PollyClient akey skey region)),
      PdfReader = (\<lambda>path.
         if path = ''poem.pdf'' then Inr [Inr ''Hope is the thing'', Inr ''with feathers'']
         else if path = ''broken.pdf'' then Inl (PdfReadError ''EOF marker not found'')
         else Inl (FileNotFoundError path)),
      synthesize_speech = (\<lambda>c r. Inr [''AudioStream'' \<mapsto> Text r]),
      token_urlsafe = (\<lambda>nbytes. ''q83vEgAB''),
      randbelow = (\<lambda>n. 0),
      gettempdir = ''/tmp'',
      open_wb = (\<lambda>path. None),
      sample_sentences = [''The quick brown fox.'']\<rparr>"

text \<open>The same collaborators, with a service whose response has no audio stream.\<close>

definition silent_env :: env where
  "silent_env = example_env\<lparr>synthesize_speech := (\<lambda>c r. Inr [''RequestCharacters'' \<mapsto> ''20''])\<rparr>"

text \<open>A freshly constructed object's attributes, before the initial methods run.\<close>

definition fresh :: PollyTTS where
  "fresh = new_PollyTTS ''key'' ''secret'' [] [] False [] Map.empty"

text \<open>Three inputs with a PDF path: a file that does not parse together with a literal
  string, a missing file together with a literal string, and a missing file alone.\<close>

definition broken_input :: PollyTTS where
  "broken_input = fresh\<lparr>pdf_input_path := ''broken.pdf'', str_input := ''Hello world''\<rparr>"

definition missing_input :: PollyTTS where
  "missing_input = fresh\<lparr>pdf_input_path := ''nothere.pdf'', str_input := ''Hello world''\<rparr>"

definition missing_only :: PollyTTS where
  "missing_only = fresh\<lparr>pdf_input_path := ''nothere.pdf''\<rparr>"

text \<open>The collaborators of \<open>example_env\<close> with a PDF library that opens every path as a
  document without pages, and an input that names such a document together with a literal
  string.\<close>

definition blank_env :: env where
  "blank_env = example_env\<lparr>PdfReader := (\<lambda>path. Inr [])\<rparr>"

definition blank_input :: PollyTTS where
  "blank_input = fresh\<lparr>pdf_input_path := ''blank.pdf'', str_input := ''Hello world''\<rparr>"

text \<open>The object of the specification's end-to-end scenario: no PDF, the literal string
  \<^verbatim>\<open>"Hello world"\<close>, the prefix \<^verbatim>\<open>"greet"\<close>.\<close>

definition greet :: PollyTTS where
  "greet = snd (init example_env ''key'' ''secret'' [] ''Hello world'' False ''greet'' Map.empty)"

text \<open>The effective configuration: the four attributes the setters are for.\<close>

definition config :: "PollyTTS \<Rightarrow> string \<times> string \<times> string \<times> string" where
  "config s = (voice_id s, output_format s, sample_rate s, language_code s)"

text \<open>Voice, sample rate and accent are members of their registries.\<close>

definition registered :: "PollyTTS \<Rightarrow> bool" where
  "registered s =
     (voice_id s \<in> set voice_ids \<and> sample_rate s \<in> set sample_rates
      \<and> language_code s \<in> fst ` set eng_language_code_dict)"

text \<open>Calling a method a second time, if the first call returned.\<close>

definition twice :: "(PollyTTS \<Rightarrow> outcome \<times> PollyTTS) \<Rightarrow> PollyTTS \<Rightarrow> outcome \<times> PollyTTS" where
  "twice f s = and_then (f s) f"

text \<open>The text of the specification's resolved-text property: the page texts with a newline
  between consecutive pages (Python's \<^verbatim>\<open>"\n".join(texts)\<close>).\<close>

fun spec_join_pages :: "string list \<Rightarrow> string" where
  "spec_join_pages [] = []"
| "spec_join_pages [t] = t"
| "spec_join_pages (t # ts) = t @ [CHR 0x0A] @ spec_join_pages ts"


section \<open>Properties of the single methods\<close>

subsection \<open>Setters\<close>

lemma choose_voice_id_eq:
  "choose_voice_id v s =
     (if v \<in> set voice_ids
      then (Returned, print (''Setting `voice_id` to: '' @ v @ ''.'') (s\<lparr>voice_id := v\<rparr>))
      else (Returned,
            print (''Setting `voice_id` to: '' @ voice_id s @ ''.'')
              (print ''Using default voice 'Joanna' instead.''
                 (print (''`select_voice_id` error: '' @ v @ '' not available.'') s))))"
  by (simp add: choose_voice_id_def choose_voice_id_try_def print_def)

lemma choose_output_format_fields:
  "fst (choose_output_format fmt s) = Returned"
  "voice_id (snd (choose_output_format fmt s)) = voice_id s"
  "output_format (snd (choose_output_format fmt s)) = ''16000''"
  "sample_rate (snd (choose_output_format fmt s)) = sample_rate s"
  "language_code (snd (choose_output_format fmt s)) = language_code s"
  by (simp_all add: choose_output_format_def choose_output_format_try_def print_def)

lemma choose_sample_rate_fields:
  "fst (choose_sample_rate rate s) = Returned"
  "voice_id (snd (choose_sample_rate rate s)) = voice_id s"
  "output_format (snd (choose_sample_rate rate s)) = output_format s"
  "sample_rate (snd (choose_sample_rate rate s)) = ''16000''"
  "language_code (snd (choose_sample_rate rate s)) = language_code s"
  by (simp_all add: choose_sample_rate_def choose_sample_rate_try_def print_def)

lemma map_of_accent_key:
  "code \<in> fst ` set eng_language_code_dict \<Longrightarrow> \<exists>name. map_of eng_language_code_dict code = Some name"
  by (metis domIff dom_map_of_conv_image_fst not_Some_eq)

lemma choose_eng_accent_fields:
  assumes "code \<in> fst ` set eng_language_code_dict"
  shows "fst (choose_eng_accent code s) = Returned"
    and "voice_id (snd (choose_eng_accent code s)) = voice_id s"
    and "output_format (snd (choose_eng_accent code s)) = output_format s"
    and "sample_rate (snd (choose_eng_accent code s)) = sample_rate s"
    and "language_code (snd (choose_eng_accent code s)) = code"
  using map_of_accent_key [OF assms] assms
  by (auto simp add: choose_eng_accent_def choose_eng_accent_try_def print_def)

lemma twice_returned:
  "fst (f s) = Returned \<Longrightarrow> twice f s = f (snd (f s))"
  by (cases "f s") (simp add: twice_def and_then_def)

subsection \<open>Voice, sample rate and accent stay in their registries\<close>

text \<open>
  Every object starts registered, and each of the six configuration methods keeps it so,
  whatever its argument or random draw. The output format is not part of this invariant.
\<close>

lemma random_choice_member:
  "random_choice E xs = Inr x \<Longrightarrow> x \<in> set xs"
  by (auto simp add: random_choice_def split: if_splits)

lemma new_PollyTTS_registered:
  "registered (new_PollyTTS akey skey pdf str tmp prefix fs)"
  by (simp add: registered_def new_PollyTTS_def voice_ids_def sample_rates_def
      eng_language_code_dict_def)

lemma choose_voice_id_registered:
  "registered s \<Longrightarrow> registered (snd (choose_voice_id v s))"
  by (simp add: registered_def choose_voice_id_eq print_def)

lemma choose_output_format_registered:
  "registered s \<Longrightarrow> registered (snd (choose_output_format fmt s))"
  by (simp add: registered_def choose_output_format_fields)

lemma choose_sample_rate_registered:
  "registered s \<Longrightarrow> registered (snd (choose_sample_rate rate s))"
  by (simp add: registered_def choose_sample_rate_fields sample_rates_def)

lemma choose_eng_accent_registered:
  "registered s \<Longrightarrow> registered (snd (choose_eng_accent code s))"
  by (auto simp add: registered_def choose_eng_accent_def choose_eng_accent_try_def print_def
      split: option.splits)

lemma random_voice_id_registered:
  "registered s \<Longrightarrow> registered (snd (random_voice_id E s))"
  by (auto simp add: registered_def random_voice_id_def print_def
      split: sum.splits dest: random_choice_member)

lemma random_eng_accent_registered:
  "registered s \<Longrightarrow> registered (snd (random_eng_accent E s))"
  by (auto simp add: registered_def random_eng_accent_def print_def
      split: sum.splits option.splits dest!: random_choice_member)

subsection \<open>Reading the PDF and falling back\<close>

lemma extract_pages_all:
  "extract_pages (map Inr texts) acc = Inr (acc @ concat (map (\<lambda>t. t @ [CHR 0x0A]) texts))"
  by (induction texts arbitrary: acc) simp_all

lemma spec_join_pages_newline:
  "texts \<noteq> [] \<Longrightarrow> concat (map (\<lambda>t. t @ [CHR 0x0A]) texts) = spec_join_pages texts @ [CHR 0x0A]"
  by (induction texts rule: spec_join_pages.induct) simp_all

lemma extract_pages_grows:
  "extract_pages pages acc = Inr t \<Longrightarrow> pages \<noteq> [] \<or> acc \<noteq> [] \<Longrightarrow> t \<noteq> []"
  by (induction pages arbitrary: acc) (auto split: sum.splits)

text \<open>A PDF with at least one page never yields the empty text.\<close>

lemma read_pdf_nonempty:
  "PdfReader E path = Inr pages \<Longrightarrow> pages \<noteq> [] \<Longrightarrow> read_pdf E path = Inr t \<Longrightarrow> t \<noteq> []"
  using extract_pages_grows [of pages "[]" t] by (simp add: read_pdf_def)

text \<open>A PDF without pages yields the empty text.\<close>

lemma read_pdf_no_pages:
  "PdfReader E path = Inr [] \<Longrightarrow> read_pdf E path = Inr []"
  by (simp add: read_pdf_def)

lemma random_text_input_print:
  "fst (random_text_input E (print m s)) = fst (random_text_input E s)"
  "aws_client_str (snd (random_text_input E (print m s))) = aws_client_str (snd (random_text_input E s))"
  by (simp_all add: random_text_input_def print_def split: sum.splits)

lemma random_text_input_pool:
  assumes "sample_sentences E \<noteq> []"
  shows "fst (random_text_input E s) = Returned"
    and "aws_client_str (snd (random_text_input E s)) \<in> set (sample_sentences E)"
  using assms by (simp_all add: random_text_input_def random_choice_def print_def)

lemma process_input_text_propagates:
  assumes "pdf_input_path s \<noteq> []"
    and "read_pdf E (pdf_input_path s) = Inl e"
    and "\<not> is_FileNotFoundError e"
  shows "process_input_text E s = (Raised e, s)"
  using assms by (simp add: process_input_text_def process_input_text_try_def)

lemma process_input_text_literal:
  assumes "pdf_input_path s \<noteq> []"
    and "read_pdf E (pdf_input_path s) = Inl e"
    and "is_FileNotFoundError e"
    and "str_input s \<noteq> []"
  shows "fst (process_input_text E s) = Returned"
    and "aws_client_str (snd (process_input_text E s)) = str_input s"
  using assms
  by (simp_all add: process_input_text_def process_input_text_try_def Let_def print_def)

lemma process_input_text_random:
  assumes "pdf_input_path s \<noteq> []"
    and "read_pdf E (pdf_input_path s) = Inl e"
    and "is_FileNotFoundError e"
    and "str_input s = []"
  shows "fst (process_input_text E s) = fst (random_text_input E s)"
    and "aws_client_str (snd (process_input_text E s))
           = aws_client_str (snd (random_text_input E s))"
  using assms
  by (simp_all add: process_input_text_def process_input_text_try_def Let_def
      random_text_input_print) (simp_all add: print_def)

text \<open>
  Where resolution does produce a text: with a non-empty pool without empty sentences, and a
  PDF library that, when a path is given, either reports the file missing or opens a
  document of at least one page whose pages all yield their text.
\<close>

lemma process_input_text_nonempty:
  assumes "sample_sentences E \<noteq> []"
    and "[] \<notin> set (sample_sentences E)"
    and "pdf_input_path s \<noteq> [] \<longrightarrow>
           (\<exists>e. PdfReader E (pdf_input_path s) = Inl e \<and> is_FileNotFoundError e)
           \<or> (\<exists>texts. texts \<noteq> [] \<and> PdfReader E (pdf_input_path s) = Inr (map Inr texts))"
  shows "fst (process_input_text E s) = Returned
     \<and> aws_client_str (snd (process_input_text E s)) \<noteq> []"
proof -
  have pool: "fst (random_text_input E s) = Returned"
    "aws_client_str (snd (random_text_input E s)) \<in> set (sample_sentences E)"
    using random_text_input_pool [OF assms(1)] by simp_all
  have ne: "aws_client_str (snd (random_text_input E s)) \<noteq> []"
    using pool(2) assms(2) by metis
  show ?thesis
  proof (cases "pdf_input_path s = []")
    case True
    then show ?thesis
      using pool ne by (simp add: process_input_text_def print_def)
  next
    case False
    then consider
      (missing) e where "PdfReader E (pdf_input_path s) = Inl e" "is_FileNotFoundError e"
      | (pages) texts where "texts \<noteq> []" "PdfReader E (pdf_input_path s) = Inr (map Inr texts)"
      using assms(3) by blast
    then show ?thesis
    proof cases
      case missing
      then have r: "read_pdf E (pdf_input_path s) = Inl e"
        by (simp add: read_pdf_def)
      show ?thesis
        using process_input_text_literal [OF False r missing(2)]
          process_input_text_random [OF False r missing(2)] pool ne
        by (cases "str_input s = []") simp_all
    next
      case pages
      then have "read_pdf E (pdf_input_path s)
                   = Inr (concat (map (\<lambda>t. t @ [CHR 0x0A]) texts))"
        by (simp add: read_pdf_def extract_pages_all)
      moreover have "concat (map (\<lambda>t. t @ [CHR 0x0A]) texts) \<noteq> []"
        using pages(1) by (cases texts) simp_all
      ultimately show ?thesis
        using False
        by (simp add: process_input_text_def process_input_text_try_def print_def)
    qed
  qed
qed

subsection \<open>Writing the audio file\<close>

lemma write_audio_file_no_stream:
  assumes "response s = Some r" and "r ''AudioStream'' = None"
  shows "write_audio_file E s =
           (Raised (SystemExit (ExitCode (- 1))),
            print ''`_write_audio_file` error: 'AudioStream' not in response.'' s)"
  using assms by (simp add: write_audio_file_def)

text \<open>The state in which \<open>greet\<close> leaves construction.\<close>

lemma greet_eq:
  "greet = (new_PollyTTS ''key'' ''secret'' [] ''Hello world'' False ''greet'' Map.empty)
            \<lparr>client := Some (PollyClient ''key'' ''secret'' ''us-east-1''),
             output_filename := ''greet.mp3'', aws_client_str := ''Hello world'',
             stdout := [''AWS-Polly client successfully initiated.'', ''Using string input.'']\<rparr>"
  by (simp add: greet_def init_def and_then_def new_PollyTTS_def initialize_client_def
      determine_output_filename_def process_input_text_def example_env_def print_def)

section \<open>The synthesis request and the registry\<close>

text \<open>
  C1. The claim: at the moment the request is submitted, each of its fields is a member of
  its allow-list, after any sequence of setter calls. The program run below is the
  end-to-end scenario followed by one call \<^verbatim>\<open>choose_output_format("mp3")\<close>, with an argument
  taken from the registry. Construction returns and the request would carry \<open>mp3\<close>; the
  setter returns; after it the request carries the output format \<open>16000\<close>, which is no
  member of \<open>output_formats\<close>; and \<open>complete_tts\<close> submits that request and returns.
  The value is the one the \<^verbatim>\<open>else\<close> clause of the setter's \<^verbatim>\<open>try\<close> statement assigns.
\<close>

theorem request_format_outside_registry:
  "fst (init example_env ''key'' ''secret'' [] ''Hello world'' False ''greet'' Map.empty) = Returned
   \<and> OutputFormat (synthesis_request greet) = ''mp3''
   \<and> fst (choose_output_format ''mp3'' greet) = Returned
   \<and> OutputFormat (synthesis_request (snd (choose_output_format ''mp3'' greet))) = ''16000''
   \<and> ''16000'' \<notin> set output_formats
   \<and> fst (complete_tts example_env (snd (choose_output_format ''mp3'' greet))) = Returned"
  by (simp add: greet_def init_def and_then_def new_PollyTTS_def initialize_client_def
      determine_output_filename_def process_input_text_def example_env_def print_def
      synthesis_request_def choose_output_format_def choose_output_format_try_def
      output_formats_def complete_tts_def get_synthesized_speech_def write_audio_file_def
      Let_def)


section \<open>The format and sample-rate setters\<close>

text \<open>
  C2. The claim: when the current field is valid the setter assigns its argument, so the
  field equals the argument after the call; when the current field is invalid the format
  setter forces \<open>mp3\<close>. On a freshly constructed object (format \<open>mp3\<close>, rate \<open>16000\<close>, both
  valid) \<^verbatim>\<open>choose_output_format("pcm")\<close> leaves the format \<open>16000\<close>, not \<open>pcm\<close>, and
  \<^verbatim>\<open>choose_sample_rate("8000")\<close> leaves the rate \<open>16000\<close>, not \<open>8000\<close>; on an object whose
  format is the invalid \<open>wav\<close> the format setter leaves \<open>16000\<close>, not \<open>mp3\<close>.
\<close>

theorem setters_overwrite_argument:
  "output_format fresh \<in> set output_formats
   \<and> output_format (snd (choose_output_format ''pcm'' fresh)) = ''16000''
   \<and> output_format (snd (choose_output_format ''pcm'' (fresh\<lparr>output_format := ''wav''\<rparr>))) = ''16000''
   \<and> sample_rate fresh \<in> set sample_rates
   \<and> sample_rate (snd (choose_sample_rate ''8000'' fresh)) = ''16000''"
  by (simp add: fresh_def new_PollyTTS_def output_formats_def sample_rates_def
      choose_output_format_def choose_output_format_try_def
      choose_sample_rate_def choose_sample_rate_try_def print_def)

text \<open>
  C3. For every argument and every prior state, the body of the \<^verbatim>\<open>try\<close> statement of
  \<^verbatim>\<open>choose_output_format\<close> (resp. \<^verbatim>\<open>choose_sample_rate\<close>) returns without raising, the call
  returns, and it leaves the field \<open>output_format\<close> (resp. \<open>sample_rate\<close>) equal to
  \<open>16000\<close>: the \<^verbatim>\<open>else\<close> clause assigns it after the branches have run.
\<close>

theorem try_else_assigns_16000:
  "fst (choose_output_format_try fmt s) = Returned
   \<and> fst (choose_output_format fmt s) = Returned
   \<and> output_format (snd (choose_output_format fmt s)) = ''16000''
   \<and> fst (choose_sample_rate_try rate s) = Returned
   \<and> fst (choose_sample_rate rate s) = Returned
   \<and> sample_rate (snd (choose_sample_rate rate s)) = ''16000''"
  by (simp add: choose_output_format_def choose_output_format_try_def
      choose_sample_rate_def choose_sample_rate_try_def print_def)


section \<open>Input resolution\<close>

text \<open>
  C4, as stated: the resolved text equals the page texts joined with a newline between
  pages. It fails on the readable two-page PDF of \<open>example_env\<close>: resolution returns, and
  the resolved text is not the join of the two page texts (it has one more newline, after
  the last page).
\<close>

theorem pdf_text_trailing_newline_counterexample:
  "PdfReader example_env ''poem.pdf'' = Inr [Inr ''Hope is the thing'', Inr ''with feathers'']
   \<and> fst (process_input_text example_env (fresh\<lparr>pdf_input_path := ''poem.pdf''\<rparr>)) = Returned
   \<and> aws_client_str (snd (process_input_text example_env (fresh\<lparr>pdf_input_path := ''poem.pdf''\<rparr>)))
       \<noteq> spec_join_pages [''Hope is the thing'', ''with feathers'']"
  by (simp add: example_env_def fresh_def new_PollyTTS_def process_input_text_def
      process_input_text_try_def read_pdf_def print_def)

text \<open>
  C4, amended: for every PDF path that the reader opens and whose pages all yield their
  text, resolution returns and the resolved text is the concatenation, in page order, of
  each page's text followed by a newline; with at least one page that is the page texts
  joined by newlines, followed by one more newline.
\<close>

theorem pdf_text_is_pages_each_with_newline:
  assumes "pdf_input_path s \<noteq> []"
    and "PdfReader E (pdf_input_path s) = Inr (map Inr texts)"
  shows "fst (process_input_text E s) = Returned
     \<and> aws_client_str (snd (process_input_text E s)) = concat (map (\<lambda>t. t @ [CHR 0x0A]) texts)
     \<and> (texts \<noteq> [] \<longrightarrow>
          aws_client_str (snd (process_input_text E s)) = spec_join_pages texts @ [CHR 0x0A])"
proof -
  have r: "read_pdf E (pdf_input_path s) = Inr (concat (map (\<lambda>t. t @ [CHR 0x0A]) texts))"
    using assms(2) by (simp add: read_pdf_def extract_pages_all)
  have "process_input_text E s =
          (Returned, print ''PDF input file processed successfully.''
             (s\<lparr>aws_client_str := concat (map (\<lambda>t. t @ [CHR 0x0A]) texts)\<rparr>))"
    using assms(1) r by (simp add: process_input_text_def process_input_text_try_def)
  then show ?thesis
    by (simp add: print_def spec_join_pages_newline)
qed

text \<open>C4, amended, at the two-page PDF of \<open>example_env\<close>.\<close>

theorem pdf_text_is_pages_each_with_newline_witness:
  "pdf_input_path (fresh\<lparr>pdf_input_path := ''poem.pdf''\<rparr>) \<noteq> []
   \<and> PdfReader example_env ''poem.pdf'' = Inr (map Inr [''Hope is the thing'', ''with feathers''])
   \<and> [''Hope is the thing'', ''with feathers''] \<noteq> []
   \<and> aws_client_str (snd (process_input_text example_env (fresh\<lparr>pdf_input_path := ''poem.pdf''\<rparr>)))
       = spec_join_pages [''Hope is the thing'', ''with feathers''] @ [CHR 0x0A]"
proof -
  have p: "pdf_input_path (fresh\<lparr>pdf_input_path := ''poem.pdf''\<rparr>) \<noteq> []"
    by simp
  have q: "PdfReader example_env (pdf_input_path (fresh\<lparr>pdf_input_path := ''poem.pdf''\<rparr>))
             = Inr (map Inr [''Hope is the thing'', ''with feathers''])"
    by (simp add: example_env_def)
  show ?thesis
    using pdf_text_is_pages_each_with_newline [OF p q] q by simp
qed

text \<open>
  C5. With a PDF path provided, let reading the PDF (opening it or extracting a page) raise
  \<open>e\<close>. If \<open>e\<close> is not a file-not-found error (a parse error, a permission error, ...),
  input resolution raises the very same \<open>e\<close> and changes nothing. If \<open>e\<close> is a file-not-found
  error, resolution falls back: with a non-empty literal string it returns with that string
  as the resolved text; without one it does what the random-sample method does.
\<close>

theorem only_file_not_found_falls_back:
  assumes "pdf_input_path s \<noteq> []"
    and "read_pdf E (pdf_input_path s) = Inl e"
  shows "(\<not> is_FileNotFoundError e \<longrightarrow> process_input_text E s = (Raised e, s))
     \<and> (is_FileNotFoundError e \<and> str_input s \<noteq> [] \<longrightarrow>
          fst (process_input_text E s) = Returned
          \<and> aws_client_str (snd (process_input_text E s)) = str_input s)
     \<and> (is_FileNotFoundError e \<and> str_input s = [] \<longrightarrow>
          fst (process_input_text E s) = fst (random_text_input E s)
          \<and> aws_client_str (snd (process_input_text E s))
              = aws_client_str (snd (random_text_input E s)))"
  using process_input_text_propagates [OF assms]
    process_input_text_literal [OF assms]
    process_input_text_random [OF assms]
  by blast

text \<open>
  C5 at three inputs of \<open>example_env\<close>: the file that does not parse (the parse error
  propagates although a literal string is there), a missing file with a literal string, and
  a missing file alone.
\<close>

theorem only_file_not_found_falls_back_witness:
  "pdf_input_path broken_input \<noteq> []
   \<and> read_pdf example_env (pdf_input_path broken_input) = Inl (PdfReadError ''EOF marker not found'')
   \<and> \<not> is_FileNotFoundError (PdfReadError ''EOF marker not found'')
   \<and> process_input_text example_env broken_input
        = (Raised (PdfReadError ''EOF marker not found''), broken_input)
   \<and> pdf_input_path missing_input \<noteq> []
   \<and> read_pdf example_env (pdf_input_path missing_input) = Inl (FileNotFoundError ''nothere.pdf'')
   \<and> is_FileNotFoundError (FileNotFoundError ''nothere.pdf'')
   \<and> str_input missing_input \<noteq> []
   \<and> fst (process_input_text example_env missing_input) = Returned
   \<and> aws_client_str (snd (process_input_text example_env missing_input)) = ''Hello world''
   \<and> pdf_input_path missing_only \<noteq> []
   \<and> read_pdf example_env (pdf_input_path missing_only) = Inl (FileNotFoundError ''nothere.pdf'')
   \<and> str_input missing_only = []
   \<and> fst (process_input_text example_env missing_only) = Returned
   \<and> aws_client_str (snd (process_input_text example_env missing_only)) = ''The quick brown fox.''"
proof -
  have b1: "pdf_input_path broken_input \<noteq> []"
    by (simp add: broken_input_def)
  have b2: "read_pdf example_env (pdf_input_path broken_input)
              = Inl (PdfReadError ''EOF marker not found'')"
    by (simp add: broken_input_def read_pdf_def example_env_def)
  have m1: "pdf_input_path missing_input \<noteq> []"
    by (simp add: missing_input_def)
  have m2: "read_pdf example_env (pdf_input_path missing_input)
              = Inl (FileNotFoundError ''nothere.pdf'')"
    by (simp add: missing_input_def read_pdf_def example_env_def)
  have m3: "str_input missing_input = ''Hello world''"
    by (simp add: missing_input_def fresh_def new_PollyTTS_def)
  have o1: "pdf_input_path missing_only \<noteq> []"
    by (simp add: missing_only_def)
  have o2: "read_pdf example_env (pdf_input_path missing_only)
              = Inl (FileNotFoundError ''nothere.pdf'')"
    by (simp add: missing_only_def read_pdf_def example_env_def)
  have o3: "str_input missing_only = []"
    by (simp add: missing_only_def fresh_def new_PollyTTS_def)
  have r: "fst (random_text_input example_env missing_only) = Returned"
    "aws_client_str (snd (random_text_input example_env missing_only)) = ''The quick brown fox.''"
    by (simp_all add: random_text_input_def random_choice_def example_env_def print_def)
  show ?thesis
    using only_file_not_found_falls_back [OF b1 b2]
      only_file_not_found_falls_back [OF m1 m2]
      only_file_not_found_falls_back [OF o1 o2]
      b1 b2 m1 m2 m3 o1 o2 o3 r
    by simp
qed

text \<open>
  C6. The claim: every combination of a PDF path and a literal string resolves to one
  non-empty text, from the PDF, the literal string or the sample pool. Two constructor
  calls, each with the literal string \<^verbatim>\<open>"Hello world"\<close>, where it does not. With the path
  of a file that does not parse, the constructor raises the parse error and the resolved
  text stays the empty string of the attribute's initial value: the literal string is not
  used, although the comment at the head of \<^verbatim>\<open>_process_input_text\<close> promises the fallback
  to the string input for a PDF that is "not found or invalid". With the path of a
  document without pages, the constructor returns and the resolved text is the empty
  string: the literal string is not used either.
\<close>

theorem resolution_without_text:
  "str_input broken_input = ''Hello world''
   \<and> PdfReader example_env (pdf_input_path broken_input)
        = Inl (PdfReadError ''EOF marker not found'')
   \<and> fst (process_input_text example_env broken_input)
        = Raised (PdfReadError ''EOF marker not found'')
   \<and> aws_client_str (snd (process_input_text example_env broken_input)) = []
   \<and> fst (init example_env ''key'' ''secret'' ''broken.pdf'' ''Hello world'' False [] Map.empty)
        = Raised (PdfReadError ''EOF marker not found'')
   \<and> str_input blank_input = ''Hello world''
   \<and> PdfReader blank_env (pdf_input_path blank_input) = Inr []
   \<and> fst (process_input_text blank_env blank_input) = Returned
   \<and> aws_client_str (snd (process_input_text blank_env blank_input)) = []
   \<and> fst (init blank_env ''key'' ''secret'' ''blank.pdf'' ''Hello world'' False [] Map.empty)
        = Returned
   \<and> aws_client_str
        (snd (init blank_env ''key'' ''secret'' ''blank.pdf'' ''Hello world'' False [] Map.empty))
        = []"
  by (simp add: broken_input_def blank_input_def blank_env_def fresh_def new_PollyTTS_def
      init_def and_then_def initialize_client_def determine_output_filename_def Let_def
      process_input_text_def process_input_text_try_def read_pdf_def example_env_def print_def)


section \<open>The voice setter\<close>

text \<open>
  C7. The voice setter always returns. Called with an identifier of the registry it makes
  the voice equal to that identifier; called with any other identifier it leaves the voice
  as it was. A newly constructed object has the voice \<open>Joanna\<close>.
\<close>

theorem choose_voice_id_assigns_or_keeps:
  "fst (choose_voice_id v s) = Returned
   \<and> (v \<in> set voice_ids \<longrightarrow> voice_id (snd (choose_voice_id v s)) = v)
   \<and> (v \<notin> set voice_ids \<longrightarrow> voice_id (snd (choose_voice_id v s)) = voice_id s)
   \<and> voice_id (new_PollyTTS akey skey pdf str tmp prefix fs) = ''Joanna''"
  by (simp add: choose_voice_id_eq print_def new_PollyTTS_def)

text \<open>C7 at a voice of the registry and at a name outside it, on a fresh object.\<close>

theorem choose_voice_id_assigns_or_keeps_witness:
  "''Amy'' \<in> set voice_ids
   \<and> voice_id (snd (choose_voice_id ''Amy'' fresh)) = ''Amy''
   \<and> ''Siri'' \<notin> set voice_ids
   \<and> voice_id (snd (choose_voice_id ''Siri'' fresh)) = ''Joanna''"
proof -
  have a: "''Amy'' \<in> set voice_ids"
    by (simp add: voice_ids_def)
  have b: "''Siri'' \<notin> set voice_ids"
    by (simp add: voice_ids_def)
  have j: "voice_id fresh = ''Joanna''"
    by (simp add: fresh_def new_PollyTTS_def)
  show ?thesis
    using choose_voice_id_assigns_or_keeps [of "''Amy''" fresh]
      choose_voice_id_assigns_or_keeps [of "''Siri''" fresh] a b j
    by simp
qed


section \<open>Synthesis without an audio stream\<close>

text \<open>
  C8. Let the object have a client and let the service answer the request with a response
  that has no entry \<^verbatim>\<open>"AudioStream"\<close>. Then \<open>complete_tts\<close> ends in \<^verbatim>\<open>sys.exit(-1)\<close>; what
  it printed are the synthesis message and then the diagnostic about the missing stream;
  and the files are the ones that were there before: nothing is written.
\<close>

theorem missing_audio_stream_is_fatal:
  assumes "client s = Some c"
    and "synthesize_speech E c (synthesis_request s) = Inr r"
    and "r ''AudioStream'' = None"
  shows "fst (complete_tts E s) = Raised (SystemExit (ExitCode (- 1)))
     \<and> stdout (snd (complete_tts E s))
         = stdout s @ [''Speech successfully synthesized.'',
                       ''`_write_audio_file` error: 'AudioStream' not in response.'']
     \<and> files (snd (complete_tts E s)) = files s"
proof -
  let ?s1 = "print ''Speech successfully synthesized.'' (s\<lparr>response := Some r\<rparr>)"
  have g: "get_synthesized_speech E s = (Returned, ?s1)"
    using assms(1,2) by (simp add: get_synthesized_speech_def)
  have "response ?s1 = Some r"
    by (simp add: print_def)
  then have w: "write_audio_file E ?s1 =
                  (Raised (SystemExit (ExitCode (- 1))),
                   print ''`_write_audio_file` error: 'AudioStream' not in response.'' ?s1)"
    using assms(3) by (rule write_audio_file_no_stream)
  show ?thesis
    by (simp add: complete_tts_def and_then_def g w) (simp add: print_def)
qed

text \<open>C8 at the end-to-end scenario, with the service of \<open>silent_env\<close>.\<close>

theorem missing_audio_stream_is_fatal_witness:
  "client greet = Some (PollyClient ''key'' ''secret'' ''us-east-1'')
   \<and> synthesize_speech silent_env (PollyClient ''key'' ''secret'' ''us-east-1'')
        (synthesis_request greet) = Inr [''RequestCharacters'' \<mapsto> ''20'']
   \<and> [''RequestCharacters'' \<mapsto> ''20''] ''AudioStream'' = None
   \<and> fst (complete_tts silent_env greet) = Raised (SystemExit (ExitCode (- 1)))
   \<and> files (snd (complete_tts silent_env greet)) = Map.empty"
proof -
  have c: "client greet = Some (PollyClient ''key'' ''secret'' ''us-east-1'')"
    by (simp add: greet_eq)
  have y: "synthesize_speech silent_env (PollyClient ''key'' ''secret'' ''us-east-1'')
             (synthesis_request greet) = Inr [''RequestCharacters'' \<mapsto> ''20'']"
    by (simp add: silent_env_def)
  have n: "[''RequestCharacters'' \<mapsto> ''20''] ''AudioStream'' = None"
    by simp
  have f: "files greet = Map.empty"
    by (simp add: greet_eq new_PollyTTS_def)
  show ?thesis
    using missing_audio_stream_is_fatal [OF c y n] c y f by simp
qed


section \<open>The output filename\<close>

text \<open>
  C9. Filename resolution always returns. With the prefix \<open>foo\<close> and the output format
  \<open>mp3\<close> the filename is exactly \<open>foo.mp3\<close> (with any non-empty prefix: the prefix, a dot,
  the output format). With no prefix it is \<open>pdf_tts_\<close>, then the token that
  \<^verbatim>\<open>secrets.token_urlsafe\<close> returns when asked for 6 bytes of entropy, then a dot and the
  output format.
\<close>

theorem output_filename_from_prefix_or_token:
  "fst (determine_output_filename E s) = Returned
   \<and> (user_file_prefix s = ''foo'' \<and> output_format s = ''mp3'' \<longrightarrow>
        output_filename (snd (determine_output_filename E s)) = ''foo.mp3'')
   \<and> (user_file_prefix s \<noteq> [] \<longrightarrow>
        output_filename (snd (determine_output_filename E s))
          = user_file_prefix s @ ''.'' @ output_format s)
   \<and> (user_file_prefix s = [] \<longrightarrow>
        output_filename (snd (determine_output_filename E s))
          = ''pdf_tts_'' @ token_urlsafe E 6 @ ''.'' @ output_format s)"
  by (simp add: determine_output_filename_def Let_def print_def)

text \<open>C9 at the prefix \<open>foo\<close> and at no prefix, on a fresh object (format \<open>mp3\<close>).\<close>

theorem output_filename_from_prefix_or_token_witness:
  "user_file_prefix (fresh\<lparr>user_file_prefix := ''foo''\<rparr>) = ''foo''
   \<and> output_format (fresh\<lparr>user_file_prefix := ''foo''\<rparr>) = ''mp3''
   \<and> output_filename (snd (determine_output_filename example_env (fresh\<lparr>user_file_prefix := ''foo''\<rparr>)))
        = ''foo.mp3''
   \<and> user_file_prefix fresh = []
   \<and> output_filename (snd (determine_output_filename example_env fresh)) = ''pdf_tts_q83vEgAB.mp3''"
proof -
  have a: "user_file_prefix (fresh\<lparr>user_file_prefix := ''foo''\<rparr>) = ''foo''"
    by simp
  have b: "output_format (fresh\<lparr>user_file_prefix := ''foo''\<rparr>) = ''mp3''"
    by (simp add: fresh_def new_PollyTTS_def)
  have c: "user_file_prefix fresh = []"
    by (simp add: fresh_def new_PollyTTS_def)
  have d: "output_format fresh = ''mp3''"
    by (simp add: fresh_def new_PollyTTS_def)
  have t: "token_urlsafe example_env 6 = ''q83vEgAB''"
    by (simp add: example_env_def)
  show ?thesis
    using output_filename_from_prefix_or_token [of example_env "fresh\<lparr>user_file_prefix := ''foo''\<rparr>"]
      output_filename_from_prefix_or_token [of example_env fresh] a b c d t
    by simp
qed


section \<open>Idempotence of the setters\<close>

text \<open>
  C10. For each of the four setters and every valid value of its argument (a member of
  the matching registry): the call returns, a second call with the same value returns too,
  and the effective configuration after the two calls is the one after the first call. For
  the accent setter the effective accent after two calls is the code itself.
\<close>

theorem setters_idempotent:
  "(v \<in> set voice_ids \<longrightarrow>
      fst (choose_voice_id v s) = Returned
      \<and> fst (twice (choose_voice_id v) s) = Returned
      \<and> config (snd (twice (choose_voice_id v) s)) = config (snd (choose_voice_id v s)))
   \<and> (fmt \<in> set output_formats \<longrightarrow>
      fst (choose_output_format fmt s) = Returned
      \<and> fst (twice (choose_output_format fmt) s) = Returned
      \<and> config (snd (twice (choose_output_format fmt) s)) = config (snd (choose_output_format fmt s)))
   \<and> (rate \<in> set sample_rates \<longrightarrow>
      fst (choose_sample_rate rate s) = Returned
      \<and> fst (twice (choose_sample_rate rate) s) = Returned
      \<and> config (snd (twice (choose_sample_rate rate) s)) = config (snd (choose_sample_rate rate s)))
   \<and> (code \<in> fst ` set eng_language_code_dict \<longrightarrow>
      fst (choose_eng_accent code s) = Returned
      \<and> fst (twice (choose_eng_accent code) s) = Returned
      \<and> config (snd (twice (choose_eng_accent code) s)) = config (snd (choose_eng_accent code s))
      \<and> language_code (snd (twice (choose_eng_accent code) s)) = code)"
proof (intro conjI impI)
  assume "v \<in> set voice_ids"
  then show "fst (choose_voice_id v s) = Returned"
    "fst (twice (choose_voice_id v) s) = Returned"
    "config (snd (twice (choose_voice_id v) s)) = config (snd (choose_voice_id v s))"
    by (simp_all add: twice_def and_then_def choose_voice_id_eq config_def print_def)
next
  show "fst (choose_output_format fmt s) = Returned"
    by (rule choose_output_format_fields)
  then have t: "twice (choose_output_format fmt) s
                  = choose_output_format fmt (snd (choose_output_format fmt s))"
    by (rule twice_returned)
  show "fst (twice (choose_output_format fmt) s) = Returned"
    by (simp add: t choose_output_format_fields)
  show "config (snd (twice (choose_output_format fmt) s)) = config (snd (choose_output_format fmt s))"
    by (simp add: t config_def choose_output_format_fields)
next
  show "fst (choose_sample_rate rate s) = Returned"
    by (rule choose_sample_rate_fields)
  then have t: "twice (choose_sample_rate rate) s
                  = choose_sample_rate rate (snd (choose_sample_rate rate s))"
    by (rule twice_returned)
  show "fst (twice (choose_sample_rate rate) s) = Returned"
    by (simp add: t choose_sample_rate_fields)
  show "config (snd (twice (choose_sample_rate rate) s)) = config (snd (choose_sample_rate rate s))"
    by (simp add: t config_def choose_sample_rate_fields)
next
  assume c: "code \<in> fst ` set eng_language_code_dict"
  show "fst (choose_eng_accent code s) = Returned"
    using c by (rule choose_eng_accent_fields)
  then have t: "twice (choose_eng_accent code) s
                  = choose_eng_accent code (snd (choose_eng_accent code s))"
    by (rule twice_returned)
  show "fst (twice (choose_eng_accent code) s) = Returned"
    by (simp add: t choose_eng_accent_fields [OF c])
  show "config (snd (twice (choose_eng_accent code) s)) = config (snd (choose_eng_accent code s))"
    by (simp add: t config_def choose_eng_accent_fields [OF c])
  show "language_code (snd (twice (choose_eng_accent code) s)) = code"
    by (simp add: t choose_eng_accent_fields [OF c])
qed

text \<open>C10 at one valid value for each setter, on a fresh object.\<close>

theorem setters_idempotent_witness:
  "''Amy'' \<in> set voice_ids
   \<and> ''pcm'' \<in> set output_formats
   \<and> ''8000'' \<in> set sample_rates
   \<and> ''en-GB'' \<in> fst ` set eng_language_code_dict
   \<and> config (snd (twice (choose_voice_id ''Amy'') fresh)) = config (snd (choose_voice_id ''Amy'' fresh))
   \<and> config (snd (twice (choose_output_format ''pcm'') fresh))
        = config (snd (choose_output_format ''pcm'' fresh))
   \<and> config (snd (twice (choose_sample_rate ''8000'') fresh))
        = config (snd (choose_sample_rate ''8000'' fresh))
   \<and> config (snd (twice (choose_eng_accent ''en-GB'') fresh))
        = config (snd (choose_eng_accent ''en-GB'' fresh))
   \<and> language_code (snd (twice (choose_eng_accent ''en-GB'') fresh)) = ''en-GB''"
proof -
  have a: "''Amy'' \<in> set voice_ids"
    by (simp add: voice_ids_def)
  have b: "''pcm'' \<in> set output_formats"
    by (simp add: output_formats_def)
  have c: "''8000'' \<in> set sample_rates"
    by (simp add: sample_rates_def)
  have d: "''en-GB'' \<in> fst ` set eng_language_code_dict"
    by (simp add: eng_language_code_dict_def)
  show ?thesis
    using setters_idempotent [of "''Amy''" fresh "''pcm''" "''8000''" "''en-GB''"] a b c d
    by simp
qed

end
